theory Spec2Isabelle
  imports Main
begin

section \<open>The tree of groups, subgroups and projects\<close>

text \<open>
  The program keeps its hierarchy in \<^verbatim>\<open>anytree\<close> nodes. A node carries the attributes the
  program sets on it and an ordered tuple of children. The attributes are \<^verbatim>\<open>name\<close>,
  \<^verbatim>\<open>type\<close>, \<^verbatim>\<open>url\<close> and \<^verbatim>\<open>root_path\<close>, and the two optional ones
  \<^verbatim>\<open>default_branch\<close> and \<^verbatim>\<open>protected_branches\<close>, which \<^verbatim>\<open>make_node\<close> sets only when
  their value is truthy (an attribute that is not set is \<open>None\<close> here).
\<close>

record node_attrs =
  name :: string
  type :: string
  url :: string
  root_path_attr :: string
  default_branch :: "string option"
  protected_branches :: "string list option"

datatype node = Node node_attrs "node list"

fun attrs :: "node \<Rightarrow> node_attrs" where
  "attrs (Node a cs) = a"

fun children :: "node \<Rightarrow> node list" where
  "children (Node a cs) = cs"

definition is_leaf :: "node \<Rightarrow> bool" where
  "is_leaf n = (children n = [])"

section \<open>The filter engine (\<^verbatim>\<open>gitlab_tree.py\<close>)\<close>

text \<open>
  The fields of \<^verbatim>\<open>GitlabTree\<close> that the modelled methods read. The constructor stores
  \<^verbatim>\<open>includes or []\<close> and \<^verbatim>\<open>excludes or []\<close>, so both are lists.
\<close>

record gitlab_tree =
  self_includes :: "string list"
  self_excludes :: "string list"
  self_root :: node
  self_concurrency :: nat
  self_recursive :: bool
  self_disable_progress :: bool
  self_use_fetch :: bool
  self_hide_token :: bool
  self_git_options :: "string option"

text \<open>
  \<^verbatim>\<open>globre.match(pattern, path)\<close> belongs to a library outside the repository. It is a
  parameter \<open>gm\<close> of the model: \<open>gm pattern path\<close> is the truth value of the match
  object the library returns.

  The loop of \<^verbatim>\<open>is_included\<close> and of \<^verbatim>\<open>is_excluded\<close> returns \<^verbatim>\<open>True\<close> at the
  first pattern that matches and \<^verbatim>\<open>False\<close> after the last one.
\<close>

fun first_match :: "(string \<Rightarrow> string \<Rightarrow> bool) \<Rightarrow> string list \<Rightarrow> string \<Rightarrow> bool" where
  "first_match gm [] path = False"
| "first_match gm (p # ps) path = (if gm p path then True else first_match gm ps path)"

definition is_included :: "(string \<Rightarrow> string \<Rightarrow> bool) \<Rightarrow> 'a gitlab_tree_scheme \<Rightarrow> node \<Rightarrow> bool" where
  "is_included gm self n =
     (if self_includes self = [] then True
      else first_match gm (self_includes self) (root_path_attr (attrs n)))"

definition is_excluded :: "(string \<Rightarrow> string \<Rightarrow> bool) \<Rightarrow> 'a gitlab_tree_scheme \<Rightarrow> node \<Rightarrow> bool" where
  "is_excluded gm self n =
     (if self_excludes self = [] then False
      else first_match gm (self_excludes self) (root_path_attr (attrs n)))"

text \<open>
  \<^verbatim>\<open>filter_tree(parent)\<close> walks \<^verbatim>\<open>parent.children\<close>, a tuple taken before the loop
  starts, and detaches a child with \<^verbatim>\<open>child.parent = None\<close>. The model returns the node
  with the children that are still attached, in their order: \<open>filter_children\<close> is the
  loop, \<open>filter_tree\<close> the call on one node.
\<close>

fun filter_tree :: "(string \<Rightarrow> string \<Rightarrow> bool) \<Rightarrow> 'a gitlab_tree_scheme \<Rightarrow> node \<Rightarrow> node"
  and filter_children :: "(string \<Rightarrow> string \<Rightarrow> bool) \<Rightarrow> 'a gitlab_tree_scheme \<Rightarrow> node list \<Rightarrow> node list" where
  "filter_tree gm self (Node a cs) = Node a (filter_children gm self cs)"
| "filter_children gm self [] = []"
| "filter_children gm self (child # rest) =
     (if \<not> is_leaf child then
        (let child' = filter_tree gm self child in
         if is_leaf child' then
           (if \<not> is_included gm self child' \<or> is_excluded gm self child'
            then filter_children gm self rest
            else child' # filter_children gm self rest)
         else child' # filter_children gm self rest)
      else
        (if \<not> is_included gm self child \<or> is_excluded gm self child
         then filter_children gm self rest
         else child # filter_children gm self rest))"


section \<open>Node creation in the tree builder (\<^verbatim>\<open>gitlab_tree.py\<close>)\<close>

text \<open>
  \<^verbatim>\<open>"/".join(parts)\<close> of Python: the parts with the separator between neighbours.
\<close>

fun join :: "string \<Rightarrow> string list \<Rightarrow> string" where
  "join sep [] = []"
| "join sep [x] = x"
| "join sep (x # y # ys) = x @ sep @ join sep (y # ys)"

text \<open>
  Python's truth value of an optional string: \<^verbatim>\<open>None\<close> and the empty string are false.
\<close>

definition truthy :: "string option \<Rightarrow> bool" where
  "truthy s = (case s of None \<Rightarrow> False | Some v \<Rightarrow> v \<noteq> [])"

text \<open>
  \<^verbatim>\<open>root_path(node, default_branch)\<close> reads \<^verbatim>\<open>node.path\<close>, the tuple of nodes from the
  root of the tree down to the node itself. The model takes that tuple as a list of node
  attributes (the first argument), root first, the node last.
\<close>

definition root_path :: "node_attrs list \<Rightarrow> string option \<Rightarrow> string" where
  "root_path node_path default_branch_arg =
     (let parts = map name node_path;
          parts = (case default_branch_arg of
                     None \<Rightarrow> parts
                   | Some b \<Rightarrow> if b \<noteq> [] then parts @ [b] else parts)
      in join ''/'' parts)"

text \<open>
  \<^verbatim>\<open>make_node(type, name, parent, url, default_branch, protected_branches)\<close> creates the
  node as the last child of \<open>parent\<close>, so the new node's path is the parent's path followed
  by the node. The model takes the parent as its path \<open>parent_path\<close> (root first, parent
  last) and returns the attributes of the new node, which has no children yet. The
  attribute \<^verbatim>\<open>root_path\<close> does not exist before the second statement sets it;
  \<open>root_path\<close> reads names only.
\<close>

definition make_node ::
  "string \<Rightarrow> string \<Rightarrow> node_attrs list \<Rightarrow> string \<Rightarrow> string option \<Rightarrow> string list option \<Rightarrow> node_attrs" where
  "make_node type_arg name_arg parent_path url_arg default_branch_arg protected_branches_arg =
     (let node = \<lparr>name = name_arg, type = type_arg, url = url_arg, root_path_attr = [],
                  default_branch = None, protected_branches = None\<rparr>;
          node = node\<lparr>root_path_attr := root_path (parent_path @ [node]) default_branch_arg\<rparr>;
          node = (if truthy default_branch_arg
                  then node\<lparr>default_branch := default_branch_arg\<rparr> else node);
          node = (case protected_branches_arg of
                    None \<Rightarrow> node
                  | Some pbs \<Rightarrow> if pbs \<noteq> [] then node\<lparr>protected_branches := Some pbs\<rparr> else node)
      in node)"

text \<open>
  The root the constructor of \<^verbatim>\<open>GitlabTree\<close> creates:
  \<^verbatim>\<open>Node("", root_path="", url=url, type="root")\<close>.
\<close>

definition root_node :: "string \<Rightarrow> node_attrs" where
  "root_node url_arg = \<lparr>name = [], type = ''root'', url = url_arg, root_path_attr = [],
                         default_branch = None, protected_branches = None\<rparr>"

text \<open>
  The parents the tree builder hands to \<^verbatim>\<open>make_node\<close>. Every call passes as parent
  either \<^verbatim>\<open>self.root\<close> or a node that an earlier call created for a group or a subgroup
  (\<^verbatim>\<open>load_gitlab_tree\<close>, \<^verbatim>\<open>get_subgroups\<close>, \<^verbatim>\<open>load_user_tree\<close>), and those calls pass
  neither a default branch nor protected branches; project nodes (\<^verbatim>\<open>add_projects\<close>) are
  never parents. \<open>builder_path p\<close> holds when \<open>p\<close> is the path of such a parent.
\<close>

inductive builder_path :: "node_attrs list \<Rightarrow> bool" where
  root: "builder_path [root_node url_arg]"
| group: "builder_path p \<Longrightarrow> type_arg = ''group'' \<or> type_arg = ''subgroup'' \<Longrightarrow>
          builder_path (p @ [make_node type_arg name_arg p url_arg None None])"


section \<open>The sync engine (\<^verbatim>\<open>git.py\<close>)\<close>

subsection \<open>Actions\<close>

text \<open>
  \<^verbatim>\<open>GitAction\<close>: the constructor's \<^verbatim>\<open>git_options\<close> defaults to \<^verbatim>\<open>None\<close>.
\<close>

record git_action =
  action_node :: node
  action_path :: string
  action_recursive :: bool
  action_use_fetch :: bool
  action_hide_token :: bool
  action_git_options :: "string option"

definition GitAction :: "node \<Rightarrow> string \<Rightarrow> bool \<Rightarrow> bool \<Rightarrow> bool \<Rightarrow> string option \<Rightarrow> git_action" where
  "GitAction n p recursive use_fetch hide_token git_options =
     \<lparr>action_node = n, action_path = p, action_recursive = recursive,
      action_use_fetch = use_fetch, action_hide_token = hide_token,
      action_git_options = git_options\<rparr>"

text \<open>
  \<^verbatim>\<open>get_git_actions(root, dest, recursive, use_fetch, hide_token)\<close>: one action per leaf
  below \<open>root\<close>, in the order of the walk. Each action is built by
  \<^verbatim>\<open>GitAction(child, path, recursive, use_fetch, hide_token)\<close>, five arguments, so its
  \<^verbatim>\<open>git_options\<close> is the default. The loop also creates the directory \<open>path\<close> of every
  child when it is missing; the list it returns does not depend on that and the model
  leaves the directories out.
\<close>

fun get_git_actions :: "node \<Rightarrow> string \<Rightarrow> bool \<Rightarrow> bool \<Rightarrow> bool \<Rightarrow> git_action list"
  and get_git_actions_loop :: "node list \<Rightarrow> string \<Rightarrow> bool \<Rightarrow> bool \<Rightarrow> bool \<Rightarrow> git_action list" where
  "get_git_actions (Node a cs) dest recursive use_fetch hide_token =
     get_git_actions_loop cs dest recursive use_fetch hide_token"
| "get_git_actions_loop [] dest recursive use_fetch hide_token = []"
| "get_git_actions_loop (child # rest) dest recursive use_fetch hide_token =
     (let path = dest @ root_path_attr (attrs child) in
      (if is_leaf child then [GitAction child path recursive use_fetch hide_token None] else [])
      @ (if \<not> is_leaf child then get_git_actions child dest recursive use_fetch hide_token else [])
      @ get_git_actions_loop rest dest recursive use_fetch hide_token)"

text \<open>
  \<^verbatim>\<open>sync_tree\<close> of \<^verbatim>\<open>git.py\<close> builds the actions and hands them to a thread pool with
  \<^verbatim>\<open>executor.map(clone_or_pull_project, actions)\<close>. The model returns the list the pool
  receives; each worker then calls \<open>clone_or_pull_project\<close> on one action. The function
  takes \<^verbatim>\<open>git_options\<close> and does not pass it on.
\<close>

definition sync_tree ::
  "node \<Rightarrow> string \<Rightarrow> nat \<Rightarrow> bool \<Rightarrow> bool \<Rightarrow> bool \<Rightarrow> bool \<Rightarrow> string option \<Rightarrow> git_action list" where
  "sync_tree root dest concurrency disable_progress recursive use_fetch hide_token git_options =
     get_git_actions root dest recursive use_fetch hide_token"

text \<open>
  \<^verbatim>\<open>GitlabTree.sync_tree(dest)\<close> calls \<^verbatim>\<open>sync_tree\<close> with the root, the destination and
  the keywords \<^verbatim>\<open>concurrency\<close>, \<^verbatim>\<open>disable_progress\<close>, \<^verbatim>\<open>recursive\<close>, \<^verbatim>\<open>use_fetch\<close> and
  \<^verbatim>\<open>hide_token\<close>; \<^verbatim>\<open>git_options\<close> keeps its default \<^verbatim>\<open>None\<close>.
\<close>

definition gitlab_tree_sync_tree :: "'a gitlab_tree_scheme \<Rightarrow> string \<Rightarrow> git_action list" where
  "gitlab_tree_sync_tree self dest =
     sync_tree (self_root self) dest (self_concurrency self) (self_disable_progress self)
       (self_recursive self) (self_use_fetch self) (self_hide_token self) None"

subsection \<open>The version control layer\<close>

text \<open>
  Python exceptions as far as the handlers of \<^verbatim>\<open>git.py\<close> tell them apart:
  \<^verbatim>\<open>KeyboardInterrupt\<close>, which is no subclass of \<^verbatim>\<open>Exception\<close>, and \<open>Exception\<close>, which
  stands for any exception that \<^verbatim>\<open>except Exception\<close> catches.
\<close>

datatype pyexc = KeyboardInterrupt | Exception

text \<open>
  What one action does to the outside, in order: the calls into GitPython, the log lines
  and the progress reports.
\<close>

datatype event =
    LogDebug string
  | LogError string
  | LogFatal string
  | ShowProgress string string
  | Pull string
  | Fetch string
  | SubmoduleUpdate string
  | CloneFrom string string "string list"
  | WorktreeAdd string string
  | WorktreePull string

text \<open>
  How an action ends: it returns, it calls \<^verbatim>\<open>sys.exit\<close> with a status, or an exception
  leaves it.
\<close>

datatype outcome = Returned | SysExit int | Raised pyexc

text \<open>
  A \<^verbatim>\<open>git.Repo\<close> object as far as the program reads it: the names of
  \<^verbatim>\<open>repo.references\<close> in order, and \<^verbatim>\<open>repo.working_tree_dir\<close>, which GitPython gives as
  \<^verbatim>\<open>None\<close> for a bare repository. \<open>head_branch\<close> is the branch the repository has checked
  out; no function of \<^verbatim>\<open>git.py\<close> reads it, it is here for the statements about it.
\<close>

record repo =
  references :: "string list"
  working_tree_dir :: "string option"
  head_branch :: string

text \<open>
  GitPython, \<^verbatim>\<open>fnmatch\<close> and the file system are outside the repository; the model takes
  them as the fields of an environment.
  \<^item> \<open>fnmatch name pattern\<close>: \<^verbatim>\<open>fnmatch.fnmatch(name, pattern)\<close>.
  \<^item> \<open>git_HEAD_name\<close>: the value of the expression \<^verbatim>\<open>git.HEAD.name\<close>, an attribute of
    GitPython's class \<^verbatim>\<open>HEAD\<close> and so the same for every repository: \<open>Some s\<close> when it
    is the string \<open>s\<close>, \<open>None\<close> when it is not a string (then no branch name equals it).
  \<^item> \<open>git_Repo path\<close>: \<^verbatim>\<open>git.Repo(path)\<close> for a path that exists (\<^verbatim>\<open>get_git_actions\<close>
    created it): the repository, or \<open>None\<close> for \<^verbatim>\<open>InvalidGitRepositoryError\<close>.
  \<^item> \<open>raises history call\<close>: the exception the call raises when it is made after the
    events of \<open>history\<close>, \<open>None\<close> when it succeeds.
  \<^item> \<open>path_exists history path\<close>: \<^verbatim>\<open>os.path.exists(path)\<close> after the events of
    \<open>history\<close>.
  \<^item> \<open>cloned path\<close>: the repository object a successful \<^verbatim>\<open>git.Repo.clone_from\<close> into
    \<open>path\<close> returns.
\<close>

record env =
  fnmatch :: "string \<Rightarrow> string \<Rightarrow> bool"
  git_HEAD_name :: "string option"
  git_Repo :: "string \<Rightarrow> repo option"
  raises :: "event list \<Rightarrow> event \<Rightarrow> pyexc option"
  path_exists :: "event list \<Rightarrow> string \<Rightarrow> bool"
  cloned :: "string \<Rightarrow> repo"

definition is_git_repo :: "'a env_scheme \<Rightarrow> string \<Rightarrow> bool" where
  "is_git_repo e p = (case git_Repo e p of Some r \<Rightarrow> True | None \<Rightarrow> False)"

subsection \<open>Strings and paths of the Python library\<close>

definition startswith :: "string \<Rightarrow> string \<Rightarrow> bool" where
  "startswith s p = (take (length p) s = p)"

definition endswith :: "string \<Rightarrow> string \<Rightarrow> bool" where
  "endswith s p = (length p \<le> length s \<and> drop (length s - length p) s = p)"

text \<open>\<^verbatim>\<open>s.replace(old, new)\<close> for one-character \<open>old\<close> and \<open>new\<close>.\<close>

definition replace :: "string \<Rightarrow> char \<Rightarrow> char \<Rightarrow> string" where
  "replace s old new = map (\<lambda>c. if c = old then new else c) s"

text \<open>
  \<^verbatim>\<open>s.split(sep)\<close> for a one-character separator: the pieces between the separators,
  empty pieces kept.
\<close>

fun split :: "string \<Rightarrow> char \<Rightarrow> string list" where
  "split [] sep = [[]]"
| "split (c # cs) sep =
     (if c = sep then [] # split cs sep
      else (case split cs sep of
              [] \<Rightarrow> [[c]]
            | w # ws \<Rightarrow> (c # w) # ws))"

text \<open>
  \<^verbatim>\<open>os.path.join\<close> of \<^verbatim>\<open>posixpath\<close>: a component that starts with the separator
  replaces what came before it; otherwise it is appended, after a separator unless the
  path so far is empty or ends with one.
\<close>

definition os_path_join_step :: "string \<Rightarrow> string \<Rightarrow> string" where
  "os_path_join_step p b =
     (if startswith b ''/'' then b
      else if p = [] \<or> endswith p ''/'' then p @ b
      else p @ ''/'' @ b)"

definition os_path_join :: "string \<Rightarrow> string list \<Rightarrow> string" where
  "os_path_join a ps = foldl os_path_join_step a ps"

definition os_path_pardir :: string where
  "os_path_pardir = ''..''"


subsection \<open>Protected-branch worktrees\<close>

text \<open>
  The inner loop of \<^verbatim>\<open>list_branches_matching_patterns\<close>: the branch is taken at the
  first pattern it matches (\<^verbatim>\<open>break\<close>).
\<close>

fun matches_a_pattern :: "'a env_scheme \<Rightarrow> string \<Rightarrow> string list \<Rightarrow> bool" where
  "matches_a_pattern e branch_name [] = False"
| "matches_a_pattern e branch_name (pattern # patterns) =
     (if fnmatch e branch_name pattern then True else matches_a_pattern e branch_name patterns)"

fun expand_branches :: "'a env_scheme \<Rightarrow> string list \<Rightarrow> string list \<Rightarrow> string list" where
  "expand_branches e [] patterns = []"
| "expand_branches e (ref_name # refs) patterns =
     (let prefix = ''origin/'' in
      if \<not> startswith ref_name prefix then expand_branches e refs patterns
      else
        (let branch_name = drop (length prefix) ref_name in
         if matches_a_pattern e branch_name patterns
         then branch_name # expand_branches e refs patterns
         else expand_branches e refs patterns))"

definition list_branches_matching_patterns :: "'a env_scheme \<Rightarrow> repo \<Rightarrow> string list \<Rightarrow> string list" where
  "list_branches_matching_patterns e r patterns = expand_branches e (references r) patterns"

text \<open>
  The functions below take the events so far and return the events after them, with the
  exception that leaves the function, if one does. \<^verbatim>\<open>create_worktree\<close> and
  \<^verbatim>\<open>update_worktree\<close> catch \<^verbatim>\<open>Exception\<close> and log it; a \<^verbatim>\<open>KeyboardInterrupt\<close> passes
  through them.
\<close>

definition create_worktree ::
  "'a env_scheme \<Rightarrow> event list \<Rightarrow> repo \<Rightarrow> string \<Rightarrow> string \<Rightarrow> event list \<times> pyexc option" where
  "create_worktree e tr r p branch =
     (case raises e tr (WorktreeAdd p branch) of
        None \<Rightarrow> (tr @ [WorktreeAdd p branch], None)
      | Some Exception \<Rightarrow>
          (tr @ [WorktreeAdd p branch, LogError ''Failed to add worktree for branch''], None)
      | Some KeyboardInterrupt \<Rightarrow> (tr @ [WorktreeAdd p branch], Some KeyboardInterrupt))"

definition update_worktree ::
  "'a env_scheme \<Rightarrow> event list \<Rightarrow> string \<Rightarrow> event list \<times> pyexc option" where
  "update_worktree e tr p =
     (case raises e tr (WorktreePull p) of
        None \<Rightarrow> (tr @ [WorktreePull p], None)
      | Some Exception \<Rightarrow>
          (tr @ [WorktreePull p, LogError ''Failed to update worktree''], None)
      | Some KeyboardInterrupt \<Rightarrow> (tr @ [WorktreePull p], Some KeyboardInterrupt))"

text \<open>
  \<^verbatim>\<open>create_or_update_worktrees(repo, branches)\<close>. The test \<^verbatim>\<open>branch == git.HEAD.name\<close>
  compares the branch with a value of the library. \<^verbatim>\<open>os.path.join\<close> raises
  \<^verbatim>\<open>TypeError\<close> when \<^verbatim>\<open>repo.working_tree_dir\<close> is \<^verbatim>\<open>None\<close>; nothing in the function
  catches it.
\<close>

fun create_or_update_worktrees ::
  "'a env_scheme \<Rightarrow> event list \<Rightarrow> repo \<Rightarrow> string list \<Rightarrow> event list \<times> pyexc option" where
  "create_or_update_worktrees e tr r [] = (tr, None)"
| "create_or_update_worktrees e tr r (branch # branches) =
     (if Some branch = git_HEAD_name e then create_or_update_worktrees e tr r branches
      else
        (case working_tree_dir r of
           None \<Rightarrow> (tr, Some Exception)
         | Some wd \<Rightarrow>
             (let p = os_path_join wd [os_path_pardir, replace branch (CHR ''/'') (CHR ''-'')] in
              case (if path_exists e tr p then update_worktree e tr p
                    else create_worktree e tr r p branch) of
                (tr', Some x) \<Rightarrow> (tr', Some x)
              | (tr', None) \<Rightarrow> create_or_update_worktrees e tr' r branches)))"

text \<open>
  \<^verbatim>\<open>create_or_update_protected_branch_worktrees(repo, action)\<close> returns at once when the
  node has no attribute \<^verbatim>\<open>protected_branches\<close> or an empty one.
\<close>

definition create_or_update_protected_branch_worktrees ::
  "'a env_scheme \<Rightarrow> event list \<Rightarrow> repo \<Rightarrow> git_action \<Rightarrow> event list \<times> pyexc option" where
  "create_or_update_protected_branch_worktrees e tr r action =
     (case protected_branches (attrs (action_node action)) of
        None \<Rightarrow> (tr, None)
      | Some patterns \<Rightarrow>
          if patterns = [] then (tr, None)
          else
            (let branches = list_branches_matching_patterns e r patterns
             in create_or_update_worktrees e tr r branches))"

subsection \<open>One action: \<^verbatim>\<open>clone_or_pull_project\<close>\<close>

text \<open>
  The statements of a \<^verbatim>\<open>try\<close> body that call GitPython, run in order until one raises.
\<close>

fun run_calls :: "'a env_scheme \<Rightarrow> event list \<Rightarrow> event list \<Rightarrow> event list \<times> pyexc option" where
  "run_calls e tr [] = (tr, None)"
| "run_calls e tr (c # cs) =
     (case raises e tr c of
        None \<Rightarrow> run_calls e (tr @ [c]) cs
      | Some x \<Rightarrow> (tr @ [c], Some x))"

text \<open>
  The clone options: \<^verbatim>\<open>--recursive\<close> when \<^verbatim>\<open>action.recursive\<close>, \<^verbatim>\<open>--mirror\<close> when
  \<^verbatim>\<open>action.use_fetch\<close>, then the pieces of \<^verbatim>\<open>action.git_options\<close> when it is truthy.
\<close>

definition multi_options :: "git_action \<Rightarrow> string list" where
  "multi_options action =
     (let opts = [];
          opts = (if action_recursive action then opts @ [''--recursive''] else opts);
          opts = (if action_use_fetch action then opts @ [''--mirror''] else opts);
          opts = (case action_git_options action of
                    None \<Rightarrow> opts
                  | Some g \<Rightarrow> if g \<noteq> [] then opts @ split g (CHR '','') else opts)
      in opts)"

text \<open>
  The \<^verbatim>\<open>else\<close> clause of both \<^verbatim>\<open>try\<close> statements runs
  \<^verbatim>\<open>create_or_update_protected_branch_worktrees\<close> outside the handlers: an exception that
  leaves it leaves the action.
\<close>

definition after_sync :: "'a env_scheme \<Rightarrow> event list \<Rightarrow> repo \<Rightarrow> git_action \<Rightarrow> event list \<times> outcome" where
  "after_sync e tr r action =
     (case create_or_update_protected_branch_worktrees e tr r action of
        (tr', None) \<Rightarrow> (tr', Returned)
      | (tr', Some x) \<Rightarrow> (tr', Raised x))"

text \<open>
  The two \<^verbatim>\<open>try\<close> bodies: what is logged and reported before them, and the calls
  they make.
\<close>

definition update_start :: "git_action \<Rightarrow> event list" where
  "update_start action =
     [LogDebug ''updating existing project'',
      ShowProgress (name (attrs (action_node action))) ''pull'']"

definition update_calls :: "git_action \<Rightarrow> event list" where
  "update_calls action =
     (if \<not> action_use_fetch action then [Pull (action_path action)]
      else [Fetch (action_path action)])
     @ (if action_recursive action then [SubmoduleUpdate (action_path action)] else [])"

definition clone_start :: "git_action \<Rightarrow> event list" where
  "clone_start action =
     [LogDebug ''cloning new project'',
      ShowProgress (name (attrs (action_node action))) ''clone'']"

definition clone_call :: "git_action \<Rightarrow> event" where
  "clone_call action =
     CloneFrom (url (attrs (action_node action))) (action_path action) (multi_options action)"

definition clone_or_pull_project :: "'a env_scheme \<Rightarrow> git_action \<Rightarrow> event list \<times> outcome" where
  "clone_or_pull_project e action =
     (case git_Repo e (action_path action) of
        Some r \<Rightarrow>
          (case run_calls e (update_start action) (update_calls action) of
             (tr, Some KeyboardInterrupt) \<Rightarrow> (tr @ [LogFatal ''User interrupted''], SysExit 0)
           | (tr, Some Exception) \<Rightarrow> (tr @ [LogError ''Error pulling project''], Returned)
           | (tr, None) \<Rightarrow> after_sync e tr r action)
      | None \<Rightarrow>
          if type (attrs (action_node action)) \<noteq> ''project''
          then ([LogDebug ''Skipping clone of node (empty subgroup/group)''], Returned)
          else
            (case run_calls e (clone_start action) [clone_call action] of
               (tr, Some KeyboardInterrupt) \<Rightarrow> (tr @ [LogFatal ''User interrupted''], SysExit 0)
             | (tr, Some Exception) \<Rightarrow> (tr @ [LogError ''Error cloning project''], Returned)
             | (tr, None) \<Rightarrow> after_sync e tr (cloned e (action_path action)) action))"

text \<open>The events that are worktree commands.\<close>

fun is_worktree_call :: "event \<Rightarrow> bool" where
  "is_worktree_call (WorktreeAdd p b) = True"
| "is_worktree_call (WorktreePull p) = True"
| "is_worktree_call ev = False"

text \<open>
  The path \<^verbatim>\<open>create_or_update_worktrees\<close> computes for a branch: next to the working tree
  \<open>wd\<close>, named as the branch with every \<open>/\<close> replaced by \<open>-\<close>.
\<close>

definition sibling_path :: "string \<Rightarrow> string \<Rightarrow> string" where
  "sibling_path wd branch =
     os_path_join wd [''..'', map (\<lambda>c. if c = CHR ''/'' then CHR ''-'' else c) branch]"

section \<open>The keep rule as the specification words it\<close>

text \<open>
  A path is kept when the include patterns are empty or one of them matches it, and no
  exclude pattern matches it.
\<close>

definition keep_rule :: "(string \<Rightarrow> string \<Rightarrow> bool) \<Rightarrow> string list \<Rightarrow> string list \<Rightarrow> string \<Rightarrow> bool" where
  "keep_rule gm include_patterns exclude_patterns p =
     ((include_patterns = [] \<or> (\<exists>pat\<in>set include_patterns. gm pat p))
      \<and> \<not> (\<exists>pat\<in>set exclude_patterns. gm pat p))"

section \<open>Example inputs\<close>

text \<open>
  A small tree as the tree builder makes it: the root, a group \<open>g\<close> with the projects
  \<open>p1\<close> and \<open>p2\<close>, and an empty group \<open>h\<close>.
\<close>

definition ex_root :: node_attrs where
  "ex_root = root_node ''https://gitlab.example''"

definition ex_g :: node_attrs where
  "ex_g = make_node ''group'' ''g'' [ex_root] ''https://gitlab.example/g'' None None"

definition ex_h :: node_attrs where
  "ex_h = make_node ''group'' ''h'' [ex_root] ''https://gitlab.example/h'' None None"

definition ex_p1 :: node_attrs where
  "ex_p1 = make_node ''project'' ''p1'' [ex_root, ex_g] ''git@gitlab.example:g/p1.git'' None
             (Some [''*''])"

definition ex_p2 :: node_attrs where
  "ex_p2 = make_node ''project'' ''p2'' [ex_root, ex_g] ''git@gitlab.example:g/p2.git'' None None"

definition ex_tree :: node where
  "ex_tree = Node ex_root [Node ex_g [Node ex_p1 [], Node ex_p2 []], Node ex_h []]"

text \<open>
  An instance of the matcher parameter for the examples: a pattern matches the path equal
  to it.
\<close>

definition literal_match :: "string \<Rightarrow> string \<Rightarrow> bool" where
  "literal_match pattern p = (pattern = p)"

definition ex_self :: "string list \<Rightarrow> string list \<Rightarrow> gitlab_tree" where
  "ex_self includes_arg excludes_arg =
     \<lparr>self_includes = includes_arg, self_excludes = excludes_arg, self_root = ex_tree,
      self_concurrency = 1, self_recursive = False, self_disable_progress = False,
      self_use_fetch = False, self_hide_token = False,
      self_git_options = Some ''--depth=1,--single-branch''\<rparr>"

text \<open>
  A repository with the remote-tracking references \<open>origin/HEAD\<close>, \<open>origin/main\<close> and
  \<open>origin/release/1.0\<close> and the local branch \<open>main\<close>, which is checked out.
\<close>

definition ex_repo :: repo where
  "ex_repo = \<lparr>references = [''main'', ''origin/HEAD'', ''origin/main'', ''origin/release/1.0''],
              working_tree_dir = Some ''/dest/g/p1'', head_branch = ''main''\<rparr>"

text \<open>
  An environment in which nothing is a repository yet, no worktree path exists, every
  call succeeds, and a pattern matches the name equal to it, \<open>*\<close> every name.
\<close>

definition ex_env :: "string option \<Rightarrow> env" where
  "ex_env head_name =
     \<lparr>fnmatch = (\<lambda>n pattern. pattern = ''*'' \<or> n = pattern),
      git_HEAD_name = head_name,
      git_Repo = (\<lambda>p. None),
      raises = (\<lambda>history call. None),
      path_exists = (\<lambda>history p. False),
      cloned = (\<lambda>p. ex_repo)\<rparr>"

text \<open>
  The same with \<open>/dest/g/p1\<close> already a repository whose pull is interrupted from the
  keyboard.
\<close>

definition ex_env_interrupted :: env where
  "ex_env_interrupted =
     (ex_env None)\<lparr>git_Repo := (\<lambda>p. if p = ''/dest/g/p1'' then Some ex_repo else None),
                   raises := (\<lambda>history call. if call = Pull ''/dest/g/p1''
                                               then Some KeyboardInterrupt else None)\<rparr>"

section \<open>Properties of the filter engine\<close>

lemma first_match_iff: "first_match gm ps p \<longleftrightarrow> (\<exists>pat\<in>set ps. gm pat p)"
  by (induction ps) auto

text \<open>The test the code makes on a node is the keep rule on the node's root path.\<close>

lemma keep_rule_code:
  "(is_included gm self n \<and> \<not> is_excluded gm self n) =
     keep_rule gm (self_includes self) (self_excludes self) (root_path_attr (attrs n))"
  by (auto simp: is_included_def is_excluded_def keep_rule_def first_match_iff)

lemma filter_tree_leaf: "is_leaf n \<Longrightarrow> filter_tree gm self n = n"
  by (cases n) (simp add: is_leaf_def)

text \<open>
  The loop of \<^verbatim>\<open>filter_tree\<close> in one equation: every child is filtered, and a filtered
  child is dropped when it is a leaf that fails the test.
\<close>

lemma filter_children_filter_map:
  "filter_children gm self cs =
     filter (\<lambda>c. \<not> is_leaf c \<or> (is_included gm self c \<and> \<not> is_excluded gm self c))
       (map (filter_tree gm self) cs)"
  by (induction cs) (auto simp: Let_def filter_tree_leaf)

lemma filter_idem_both:
  "filter_tree gm self (filter_tree gm self t) = filter_tree gm self t"
  "filter_children gm self (filter_children gm self cs) = filter_children gm self cs"
proof (induction gm self t and gm self cs rule: filter_tree_filter_children.induct)
  case (1 gm self a cs)
  then show ?case by simp
next
  case (2 gm self)
  then show ?case by simp
next
  case (3 gm self child rest)
  show ?case
  proof (cases "is_leaf child")
    case True
    with 3 show ?thesis by (simp add: Let_def)
  next
    case False
    with 3 show ?thesis by (simp add: Let_def)
  qed
qed

lemmas ex_defs = ex_tree_def ex_root_def ex_g_def ex_h_def ex_p1_def ex_p2_def ex_self_def
  root_node_def make_node_def root_path_def truthy_def literal_match_def is_leaf_def
  is_included_def is_excluded_def keep_rule_def Let_def

text \<open>
  Claim C1. The children of a filtered node are the children it had, each with its own
  subtree filtered, without those that are leaves at that moment and fail the keep rule:
  a child that is judged (a leaf when the loop reaches its test) stays exactly when the
  include patterns are empty or one of them matches its root path, and no exclude pattern
  matches it; one that fails is no longer a child of its parent. The node
  \<^verbatim>\<open>filter_tree\<close> is called on, the root, is returned with its own attributes
  whatever the patterns are.
\<close>

theorem C1_keep_rule:
  "children (filter_tree gm self parent) =
     filter (\<lambda>c. is_leaf c \<longrightarrow>
                  keep_rule gm (self_includes self) (self_excludes self) (root_path_attr (attrs c)))
       (map (filter_tree gm self) (children parent))
   \<and> attrs (filter_tree gm self parent) = attrs parent"
proof (cases parent)
  case (Node a cs)
  have "filter_children gm self cs =
          filter (\<lambda>c. is_leaf c \<longrightarrow>
                  keep_rule gm (self_includes self) (self_excludes self) (root_path_attr (attrs c)))
            (map (filter_tree gm self) cs)"
    unfolding filter_children_filter_map keep_rule_code by (rule filter_cong) auto
  with Node show ?thesis by simp
qed

text \<open>
  The example tree with the exclude patterns \<open>/g/p2\<close>, \<open>/h\<close> and the empty pattern: the
  project \<open>p2\<close> and the empty group \<open>h\<close> are detached, and the root, whose root path the
  empty pattern matches, stays.
\<close>

theorem C1_keep_rule_witness:
  "children (filter_tree literal_match (ex_self [] [''/g/p2'', ''/h'', '''']) ex_tree)
     = [Node ex_g [Node ex_p1 []]]
   \<and> attrs (filter_tree literal_match (ex_self [] [''/g/p2'', ''/h'', '''']) ex_tree) = ex_root
   \<and> \<not> keep_rule literal_match [] [''/g/p2'', ''/h'', ''''] (root_path_attr ex_root)"
  using C1_keep_rule [of literal_match "ex_self [] [''/g/p2'', ''/h'', '''']" ex_tree]
  by (simp add: ex_defs)

text \<open>
  Claim C8. Filtering is idempotent: running \<^verbatim>\<open>filter_tree\<close> on a tree it has already
  filtered, with the same patterns, gives the same tree, so no further node is detached.
\<close>

theorem C8_filter_idempotent:
  "filter_tree gm self (filter_tree gm self t) = filter_tree gm self t"
  by (rule filter_idem_both(1))

theorem C8_filter_idempotent_witness:
  "filter_tree literal_match (ex_self [''/g/p1''] [])
     (filter_tree literal_match (ex_self [''/g/p1''] []) ex_tree)
   = Node ex_root [Node ex_g [Node ex_p1 []]]"
  using C8_filter_idempotent [of literal_match "ex_self [''/g/p1''] []" ex_tree]
  by (simp add: ex_defs)

text \<open>
  Claim C2. The loop is depth-first and post-order. For a child that has children the
  call on the child comes first, so the child's own children are filtered before the child
  is looked at; when that has left the child without children, the keep rule is applied
  to the child and it is detached if it fails, and otherwise the filtered child stays. A
  child that has no children when the loop reaches it is tested with the keep rule
  directly.
\<close>

theorem C2_post_order:
  "(\<not> is_leaf child \<longrightarrow>
      children (filter_tree gm self child) = filter_children gm self (children child)
      \<and> filter_children gm self (child # rest) =
          (if is_leaf (filter_tree gm self child)
              \<and> \<not> keep_rule gm (self_includes self) (self_excludes self)
                    (root_path_attr (attrs (filter_tree gm self child)))
           then filter_children gm self rest
           else filter_tree gm self child # filter_children gm self rest))
   \<and> (is_leaf child \<longrightarrow>
      filter_children gm self (child # rest) =
          (if \<not> keep_rule gm (self_includes self) (self_excludes self) (root_path_attr (attrs child))
           then filter_children gm self rest
           else child # filter_children gm self rest))"
proof (intro conjI impI)
  assume "\<not> is_leaf child"
  then show "filter_children gm self (child # rest) =
          (if is_leaf (filter_tree gm self child)
              \<and> \<not> keep_rule gm (self_includes self) (self_excludes self)
                    (root_path_attr (attrs (filter_tree gm self child)))
           then filter_children gm self rest
           else filter_tree gm self child # filter_children gm self rest)"
    using keep_rule_code [of gm self "filter_tree gm self child"]
    by (auto simp: Let_def)
next
  show "children (filter_tree gm self child) = filter_children gm self (children child)"
    by (cases child) simp
next
  assume "is_leaf child"
  then show "filter_children gm self (child # rest) =
          (if \<not> keep_rule gm (self_includes self) (self_excludes self) (root_path_attr (attrs child))
           then filter_children gm self rest
           else child # filter_children gm self rest)"
    using keep_rule_code [of gm self child] by auto
qed

text \<open>
  With the single include pattern \<open>/h\<close> the projects of \<open>g\<close> are detached first, \<open>g\<close>
  is then a leaf and is detached in turn, and the leaf \<open>h\<close> is tested directly and stays.
\<close>

theorem C2_post_order_witness:
  "\<not> is_leaf (Node ex_g [Node ex_p1 [], Node ex_p2 []])
   \<and> is_leaf (filter_tree literal_match (ex_self [''/h''] []) (Node ex_g [Node ex_p1 [], Node ex_p2 []]))
   \<and> is_leaf (Node ex_h [])
   \<and> filter_children literal_match (ex_self [''/h''] []) (children ex_tree) = [Node ex_h []]
   \<and> filter_children literal_match (ex_self [''/h''] []) [Node ex_h []] = [Node ex_h []]"
  using C2_post_order [of "Node ex_g [Node ex_p1 [], Node ex_p2 []]" literal_match
      "ex_self [''/h''] []" "[Node ex_h []]"]
    C2_post_order [of "Node ex_h []" literal_match "ex_self [''/h''] []" "[]"]
  by (simp add: ex_defs)

text \<open>
  Claim C10. A child that still has a child after its own subtree has been filtered is
  never detached, whatever the patterns say about its root path: the children of the
  filtered parent that have children are all the filtered children that have children, in
  their order.
\<close>

theorem C10_non_leaf_retained:
  "filter (\<lambda>c. \<not> is_leaf c) (children (filter_tree gm self parent)) =
     filter (\<lambda>c. \<not> is_leaf c) (map (filter_tree gm self) (children parent))
   \<and> (c \<in> set (children parent) \<longrightarrow> \<not> is_leaf (filter_tree gm self c) \<longrightarrow>
        filter_tree gm self c \<in> set (children (filter_tree gm self parent)))"
proof (cases parent)
  case (Node a cs)
  have "filter (\<lambda>c. \<not> is_leaf c) (filter_children gm self cs) =
          filter (\<lambda>c. \<not> is_leaf c) (map (filter_tree gm self) cs)"
    unfolding filter_children_filter_map filter_filter by (rule filter_cong) auto
  moreover have "c \<in> set cs \<longrightarrow> \<not> is_leaf (filter_tree gm self c) \<longrightarrow>
        filter_tree gm self c \<in> set (filter_children gm self cs)"
    unfolding filter_children_filter_map by auto
  ultimately show ?thesis using Node by simp
qed

text \<open>
  The group \<open>g\<close> matches the exclude pattern \<open>/g\<close> and no include pattern, and it stays
  because its project \<open>p1\<close> does.
\<close>

theorem C10_non_leaf_retained_witness:
  "is_excluded literal_match (ex_self [''/g/p1''] [''/g'']) (Node ex_g [Node ex_p1 [], Node ex_p2 []])
   \<and> \<not> is_included literal_match (ex_self [''/g/p1''] [''/g'']) (Node ex_g [Node ex_p1 [], Node ex_p2 []])
   \<and> Node ex_g [Node ex_p1 [], Node ex_p2 []] \<in> set (children ex_tree)
   \<and> filter_tree literal_match (ex_self [''/g/p1''] [''/g'']) (Node ex_g [Node ex_p1 [], Node ex_p2 []])
       = Node ex_g [Node ex_p1 []]
   \<and> Node ex_g [Node ex_p1 []]
       \<in> set (children (filter_tree literal_match (ex_self [''/g/p1''] [''/g'']) ex_tree))"
  using C10_non_leaf_retained [of literal_match "ex_self [''/g/p1''] [''/g'']" ex_tree
      "Node ex_g [Node ex_p1 [], Node ex_p2 []]"]
  by (simp add: ex_defs)

section \<open>Properties of node creation\<close>

lemma join_snoc: "xs \<noteq> [] \<Longrightarrow> join sep (xs @ [y]) = join sep xs @ sep @ y"
  by (induction sep xs rule: join.induct) auto

lemma make_node_name [simp]: "name (make_node t n p u d pb) = n"
  by (simp add: make_node_def Let_def split: option.splits)

lemma make_node_root_path:
  "root_path_attr (make_node t n p u d pb) = root_path (p @ [make_node t n p u d pb]) d"
  by (simp add: make_node_def root_path_def Let_def split: option.splits)

text \<open>
  The root path of a parent the builder uses is its ancestors' names and its own, joined
  with \<open>/\<close>.
\<close>

lemma builder_path_root_path:
  "builder_path p \<Longrightarrow> p \<noteq> [] \<and> root_path_attr (last p) = join ''/'' (map name p)"
proof (induction rule: builder_path.induct)
  case (root url_arg)
  show ?case by (simp add: root_node_def)
next
  case (group p type_arg name_arg url_arg)
  then show ?case by (simp add: make_node_root_path root_path_def)
qed

text \<open>
  Claim C9. A node the tree builder creates under a parent has as root path the parent's
  root path, then \<open>/\<close> and the node's own name, then \<open>/\<close> and the default branch when
  one is passed and is not empty. The path is computed by \<^verbatim>\<open>make_node\<close> from the names
  on the node's path at that moment.
\<close>

theorem C9_root_path:
  "builder_path p \<Longrightarrow>
     root_path_attr (make_node type_arg name_arg p url_arg default_branch_arg protected_branches_arg)
       = root_path_attr (last p) @ ''/'' @ name_arg @
           (case default_branch_arg of
              None \<Rightarrow> []
            | Some b \<Rightarrow> if b = [] then [] else ''/'' @ b)"
proof -
  assume bp: "builder_path p"
  then have ne: "p \<noteq> []" and rp: "root_path_attr (last p) = join ''/'' (map name p)"
    using builder_path_root_path by blast+
  have own: "join ''/'' (map name p @ [name_arg]) = root_path_attr (last p) @ ''/'' @ name_arg"
    using ne by (simp add: join_snoc rp)
  show ?thesis
  proof (cases default_branch_arg)
    case None
    then show ?thesis using own by (simp add: make_node_root_path root_path_def)
  next
    case (Some b)
    have "join ''/'' ((map name p @ [name_arg]) @ [b])
            = join ''/'' (map name p @ [name_arg]) @ ''/'' @ b"
      by (rule join_snoc) simp
    with Some own show ?thesis by (simp add: make_node_root_path root_path_def)
  qed
qed

text \<open>
  The project \<open>p1\<close> under the group \<open>g\<close>, with the default branch \<open>main\<close> and without
  one.
\<close>

theorem C9_root_path_witness:
  "builder_path [ex_root, ex_g]
   \<and> root_path_attr (last [ex_root, ex_g]) = ''/g''
   \<and> root_path_attr (make_node ''project'' ''p1'' [ex_root, ex_g] ''u'' (Some ''main'') None)
       = ''/g/p1/main''
   \<and> root_path_attr (make_node ''project'' ''p1'' [ex_root, ex_g] ''u'' None None) = ''/g/p1''"
proof -
  have "builder_path ([ex_root] @ [ex_g])"
    unfolding ex_g_def ex_root_def by (intro builder_path.group builder_path.root) simp
  then have bp: "builder_path [ex_root, ex_g]" by simp
  show ?thesis
    using bp C9_root_path [OF bp, of "''project''" "''p1''" "''u''" "Some ''main''" None]
      C9_root_path [OF bp, of "''project''" "''p1''" "''u''" None None]
    by (simp add: ex_defs)
qed

section \<open>Properties of the sync engine\<close>

text \<open>
  Claim C7. When the destination path of an action is not a repository and the node's
  type is not \<open>project\<close>, the action logs one debug line and returns: no clone and no
  other command of the version control layer is issued.
\<close>

theorem C7_empty_group_skipped:
  "\<not> is_git_repo e (action_path action) \<Longrightarrow> type (attrs (action_node action)) \<noteq> ''project'' \<Longrightarrow>
     clone_or_pull_project e action
       = ([LogDebug ''Skipping clone of node (empty subgroup/group)''], Returned)"
  by (simp add: clone_or_pull_project_def is_git_repo_def split: option.splits)

text \<open>
  The empty group \<open>h\<close> of the example tree: its action is among those of the sync run,
  and running it only logs the debug line.
\<close>

theorem C7_empty_group_skipped_witness:
  "\<not> is_git_repo (ex_env None) ''/dest/h''
   \<and> type ex_h = ''group''
   \<and> GitAction (Node ex_h []) ''/dest/h'' False False False None
        \<in> set (gitlab_tree_sync_tree (ex_self [] []) ''/dest'')
   \<and> clone_or_pull_project (ex_env None) (GitAction (Node ex_h []) ''/dest/h'' False False False None)
       = ([LogDebug ''Skipping clone of node (empty subgroup/group)''], Returned)"
  using C7_empty_group_skipped [of "ex_env None" "GitAction (Node ex_h []) ''/dest/h'' False False False None"]
  by (simp add: ex_defs ex_env_def is_git_repo_def GitAction_def gitlab_tree_sync_tree_def sync_tree_def)

text \<open>
  No action that \<^verbatim>\<open>get_git_actions\<close> builds carries git options, for any tree.
\<close>

lemma get_git_actions_git_options:
  "a \<in> set (get_git_actions root dest r u h) \<Longrightarrow> action_git_options a = None"
  "a \<in> set (get_git_actions_loop cs dest r u h) \<Longrightarrow> action_git_options a = None"
  by (induction root dest r u h and cs dest r u h rule: get_git_actions_get_git_actions_loop.induct)
    (auto simp: Let_def GitAction_def split: if_splits)

text \<open>
  Claim C3, evaluated on the example. The user gave the git options
  \<open>--depth=1,--single-branch\<close>. No action of the sync run carries them, and the clone of
  the project \<open>p2\<close> is invoked with the empty options list. Had the action carried the
  user's string, the options would have been its two pieces.
\<close>

theorem C3_git_options_dropped:
  "self_git_options (ex_self [] []) = Some ''--depth=1,--single-branch''
   \<and> map (\<lambda>a. (action_path a, action_git_options a, multi_options a))
        (gitlab_tree_sync_tree (ex_self [] []) ''/dest'')
      = [(''/dest/g/p1'', None, []), (''/dest/g/p2'', None, []), (''/dest/h'', None, [])]
   \<and> clone_or_pull_project (ex_env None) (hd (tl (gitlab_tree_sync_tree (ex_self [] []) ''/dest'')))
      = ([LogDebug ''cloning new project'', ShowProgress ''p2'' ''clone'',
          CloneFrom ''git@gitlab.example:g/p2.git'' ''/dest/g/p2'' []], Returned)
   \<and> multi_options (GitAction (Node ex_p2 []) ''/dest/g/p2'' False False False
        (self_git_options (ex_self [] []))) = [''--depth=1'', ''--single-branch'']"
  by (simp add: ex_defs ex_env_def GitAction_def gitlab_tree_sync_tree_def sync_tree_def
      multi_options_def clone_or_pull_project_def clone_start_def clone_call_def after_sync_def
      create_or_update_protected_branch_worktrees_def)

subsection \<open>Protected-branch worktrees\<close>

lemma matches_a_pattern_iff:
  "matches_a_pattern e b patterns \<longleftrightarrow> (\<exists>pat\<in>set patterns. fnmatch e b pat)"
  by (induction patterns) auto

lemma expand_branches_filter:
  "expand_branches e refs patterns =
     map (drop (length ''origin/''))
       (filter (\<lambda>n. startswith n ''origin/''
                     \<and> (\<exists>pat\<in>set patterns. fnmatch e (drop (length ''origin/'') n) pat)) refs)"
  by (induction refs) (auto simp: Let_def matches_a_pattern_iff)

lemma sibling_path_code:
  "os_path_join wd [os_path_pardir, replace branch (CHR ''/'') (CHR ''-'')] = sibling_path wd branch"
  by (simp add: sibling_path_def os_path_pardir_def replace_def)

text \<open>
  One round of the worktree loop issues one worktree command, a pull when the path exists
  and the creation of a worktree otherwise; only an interrupt from the keyboard leaves it.
\<close>

lemma worktree_step_events:
  "(if path_exists e tr p then update_worktree e tr p else create_worktree e tr r p b) = (tr', x)
   \<Longrightarrow> \<exists>rest. tr' = tr @ (if path_exists e tr p then WorktreePull p else WorktreeAdd p b) # rest
         \<and> filter is_worktree_call rest = []
         \<and> (x = Some KeyboardInterrupt \<or> x = None)
         \<and> (x = Some KeyboardInterrupt \<longrightarrow>
              raises e tr (if path_exists e tr p then WorktreePull p else WorktreeAdd p b)
                = Some KeyboardInterrupt)"
  by (auto simp: update_worktree_def create_worktree_def split: if_splits option.splits pyexc.splits)

lemma worktrees_extend:
  "\<exists>suffix. fst (create_or_update_worktrees e tr r bs) = tr @ suffix"
proof (induction bs arbitrary: tr)
  case Nil
  show ?case by simp
next
  case (Cons b bs)
  show ?case
  proof (cases "Some b = git_HEAD_name e")
    case True
    with Cons show ?thesis by simp
  next
    case False
    show ?thesis
    proof (cases "working_tree_dir r")
      case None
      with False show ?thesis by simp
    next
      case (Some wd)
      obtain tr' x where step:
        "(if path_exists e tr (sibling_path wd b) then update_worktree e tr (sibling_path wd b)
          else create_worktree e tr r (sibling_path wd b) b) = (tr', x)"
        by fastforce
      from worktree_step_events [OF step] obtain rest where
        tr': "tr' = tr @ (if path_exists e tr (sibling_path wd b) then WorktreePull (sibling_path wd b)
                          else WorktreeAdd (sibling_path wd b) b) # rest"
        by blast
      from Cons [of tr'] obtain suffix where
        "fst (create_or_update_worktrees e tr' r bs) = tr' @ suffix" by blast
      with False Some step tr' show ?thesis
        by (cases x) (auto simp: sibling_path_code Let_def)
    qed
  qed
qed

lemma worktrees_first_event:
  assumes "Some b \<noteq> git_HEAD_name e" and "working_tree_dir r = Some wd"
  shows "\<exists>rest. fst (create_or_update_worktrees e tr r (b # bs)) =
           tr @ (if path_exists e tr (sibling_path wd b) then WorktreePull (sibling_path wd b)
                 else WorktreeAdd (sibling_path wd b) b) # rest"
proof -
  obtain tr' x where step:
    "(if path_exists e tr (sibling_path wd b) then update_worktree e tr (sibling_path wd b)
      else create_worktree e tr r (sibling_path wd b) b) = (tr', x)"
    by fastforce
  from worktree_step_events [OF step] obtain rest where
    tr': "tr' = tr @ (if path_exists e tr (sibling_path wd b) then WorktreePull (sibling_path wd b)
                      else WorktreeAdd (sibling_path wd b) b) # rest"
    by blast
  from worktrees_extend [of e tr' r bs] obtain suffix where
    "fst (create_or_update_worktrees e tr' r bs) = tr' @ suffix" by blast
  with assms step tr' show ?thesis
    by (cases x) (auto simp: sibling_path_code Let_def)
qed

lemma worktrees_all_branches:
  assumes "\<forall>h c. raises e h c \<noteq> Some KeyboardInterrupt" and "working_tree_dir r = Some wd"
  shows "snd (create_or_update_worktrees e tr r bs) = None
     \<and> list_all2 (\<lambda>ev b. ev = WorktreePull (sibling_path wd b) \<or> ev = WorktreeAdd (sibling_path wd b) b)
         (filter is_worktree_call (drop (length tr) (fst (create_or_update_worktrees e tr r bs))))
         (filter (\<lambda>b. Some b \<noteq> git_HEAD_name e) bs)"
proof (induction bs arbitrary: tr)
  case Nil
  show ?case by simp
next
  case (Cons b bs)
  show ?case
  proof (cases "Some b = git_HEAD_name e")
    case True
    with Cons [of tr] show ?thesis by simp
  next
    case False
    let ?p = "sibling_path wd b"
    let ?ev = "if path_exists e tr ?p then WorktreePull ?p else WorktreeAdd ?p b"
    obtain tr' x where step:
      "(if path_exists e tr ?p then update_worktree e tr ?p else create_worktree e tr r ?p b) = (tr', x)"
      by fastforce
    from worktree_step_events [OF step] obtain rest where
      tr': "tr' = tr @ ?ev # rest" and quiet: "filter is_worktree_call rest = []"
      and x: "x = Some KeyboardInterrupt \<or> x = None"
      and ki: "x = Some KeyboardInterrupt \<longrightarrow> raises e tr ?ev = Some KeyboardInterrupt"
      by blast
    from x ki assms(1) have xn: "x = None" by blast
    from worktrees_extend [of e tr' r bs] obtain suffix where
      suf: "fst (create_or_update_worktrees e tr' r bs) = tr' @ suffix" by blast
    have res: "create_or_update_worktrees e tr r (b # bs) = create_or_update_worktrees e tr' r bs"
      using False assms(2) step xn by (simp add: sibling_path_code Let_def)
    have drop_eq: "drop (length tr) (fst (create_or_update_worktrees e tr' r bs))
                     = ?ev # rest @ drop (length tr') (fst (create_or_update_worktrees e tr' r bs))"
      using suf tr' by simp
    have "is_worktree_call ?ev" by simp
    with Cons [of tr'] False quiet show ?thesis
      unfolding res drop_eq by simp
  qed
qed

lemmas git_defs = ex_env_def ex_repo_def ex_env_interrupted_def GitAction_def
  list_branches_matching_patterns_def create_or_update_protected_branch_worktrees_def
  create_worktree_def update_worktree_def sibling_path_def os_path_join_def
  os_path_join_step_def os_path_pardir_def replace_def startswith_def endswith_def
  clone_or_pull_project_def update_start_def update_calls_def clone_start_def clone_call_def
  multi_options_def after_sync_def is_git_repo_def

text \<open>
  Claim C5, evaluated on the example. The project \<open>p1\<close> carries the protected-branch
  pattern \<open>*\<close>, its clone succeeds, and the cloned repository has \<open>main\<close> checked out.
  The matched branches are \<open>HEAD\<close>, \<open>main\<close> and \<open>release/1.0\<close>. The test in the loop
  compares each branch with the library value \<^verbatim>\<open>git.HEAD.name\<close> and never with the
  branch the repository has checked out: a worktree is requested for \<open>main\<close> all the same,
  whether \<^verbatim>\<open>git.HEAD.name\<close> is no string at all or the string \<open>HEAD\<close>.
\<close>

theorem C5_head_branch_not_skipped:
  "head_branch ex_repo = ''main''
   \<and> protected_branches ex_p1 = Some [''*'']
   \<and> list_branches_matching_patterns (ex_env None) ex_repo [''*'']
       = [''HEAD'', ''main'', ''release/1.0'']
   \<and> clone_or_pull_project (ex_env None)
        (GitAction (Node ex_p1 []) ''/dest/g/p1'' False False False None)
       = ([LogDebug ''cloning new project'', ShowProgress ''p1'' ''clone'',
           CloneFrom ''git@gitlab.example:g/p1.git'' ''/dest/g/p1'' [],
           WorktreeAdd ''/dest/g/p1/../HEAD'' ''HEAD'',
           WorktreeAdd ''/dest/g/p1/../main'' ''main'',
           WorktreeAdd ''/dest/g/p1/../release-1.0'' ''release/1.0''], Returned)
   \<and> clone_or_pull_project (ex_env (Some ''HEAD''))
        (GitAction (Node ex_p1 []) ''/dest/g/p1'' False False False None)
       = ([LogDebug ''cloning new project'', ShowProgress ''p1'' ''clone'',
           CloneFrom ''git@gitlab.example:g/p1.git'' ''/dest/g/p1'' [],
           WorktreeAdd ''/dest/g/p1/../main'' ''main'',
           WorktreeAdd ''/dest/g/p1/../release-1.0'' ''release/1.0''], Returned)"
  by (simp add: ex_defs git_defs)

subsection \<open>Interrupts and errors in one action\<close>

text \<open>
  When the calls of a \<^verbatim>\<open>try\<close> body end with an exception, one of the calls raised it,
  after the calls before it had succeeded.
\<close>

lemma run_calls_raised:
  "run_calls e tr cs = (tr', Some x) \<Longrightarrow>
     \<exists>done c. tr' = tr @ done @ [c] \<and> c \<in> set cs \<and> raises e (tr @ done) c = Some x"
proof (induction cs arbitrary: tr)
  case Nil
  then show ?case by simp
next
  case (Cons c cs)
  show ?case
  proof (cases "raises e tr c")
    case None
    with Cons.prems have "run_calls e (tr @ [c]) cs = (tr', Some x)" by simp
    from Cons.IH [OF this] obtain d c' where
      "tr' = (tr @ [c]) @ d @ [c']" "c' \<in> set cs" "raises e ((tr @ [c]) @ d) c' = Some x"
      by blast
    then have "tr' = tr @ (c # d) @ [c'] \<and> c' \<in> set (c # cs) \<and> raises e (tr @ (c # d)) c' = Some x"
      by simp
    then show ?thesis by blast
  next
    case (Some y)
    with Cons.prems have "tr' = tr @ [] @ [c] \<and> c \<in> set (c # cs) \<and> raises e (tr @ []) c = Some x"
      by simp
    then show ?thesis by blast
  qed
qed

lemma after_sync_no_exit: "snd (after_sync e tr r a) \<noteq> SysExit n"
  by (simp add: after_sync_def split: prod.splits option.splits)

lemma clone_or_pull_project_exit_status:
  "snd (clone_or_pull_project e a) = SysExit n \<Longrightarrow> n = 0"
  by (auto simp: clone_or_pull_project_def after_sync_no_exit
      split: option.splits prod.splits pyexc.splits if_splits)


end
